theory Spec2Isabelle
  imports Complex_Main
begin

section \<open>The primal-dual splitting solver of pycsou/opt/solver/pds.py\<close>

text \<open>
  The solver composes black boxes: a differentiable functional \<open>f\<close>, two proximable
  functionals \<open>g\<close> and \<open>h\<close>, and a linear operator \<open>K\<close>. Arrays are the values of a
  real vector space \<open>'a\<close> (\<open>c *\<^sub>R v\<close> is Python's \<open>c * v\<close>), Python floats are read as
  real numbers, and a Python value that may be \<open>None\<close> is an \<open>option\<close>. Every
  \<open>raise\<close> of the source, and every operation that raises on \<open>None\<close>, on an unset
  attribute or on a zero divisor, is a branch returning \<open>Inl\<close> of the error.
\<close>

subsection \<open>Values, terms and operators\<close>

datatype error = ValueError | TypeError | AttributeError | ZeroDivisionError | OverflowError

text \<open>
  A float as \<open>math.isfinite\<close> sees it: \<open>Finite r\<close> where it answers \<open>True\<close>,
  \<open>NonFinite\<close> for \<open>inf\<close>, \<open>-inf\<close> and \<open>nan\<close>.
\<close>

datatype pyfloat = Finite real | NonFinite

text \<open>
  A functional object, with the attributes and methods the solver reads:
  \<open>isinstance(_, pyclo.NullFunc)\<close>, \<open>grad\<close>, \<open>prox(arr, tau)\<close>,
  \<open>fenchel_prox(arr, sigma)\<close>, \<open>_diff_lipschitz\<close> and \<open>shape\<close>.
\<close>

record 'a func =
  is_NullFunc :: bool
  grad :: "'a \<Rightarrow> 'a"
  prox :: "'a \<Rightarrow> real \<Rightarrow> 'a"
  fenchel_prox :: "'a \<Rightarrow> real \<Rightarrow> 'a"
  diff_lipschitz :: pyfloat
  func_shape :: "nat option \<times> nat option"

text \<open>
  A linear operator object: \<open>K(arr)\<close>, \<open>K.adjoint(arr)\<close>, \<open>K._lipschitz\<close> and
  \<open>K.shape\<close>. The solver hands \<open>mst["z"]\<close> to \<open>adjoint\<close> as it is, so the argument of
  \<open>adjoint\<close> may be \<open>None\<close>.
\<close>

record 'a linop =
  call :: "'a \<Rightarrow> 'a"
  adjoint :: "'a option \<Rightarrow> 'a"
  lipschitz :: pyfloat
  op_shape :: "nat option \<times> nat option"

text \<open>
  Modelled from the spec: \<open>pycsou.linop.base\<close> (\<open>NullFunc\<close>, \<open>NullOp\<close>,
  \<open>IdentityOp\<close>) is not among the source files. The spec calls them zero-valued
  stand-ins: a null functional contributes zero gradient and identity prox, the null
  operator maps everything to zero, the identity operator returns its argument.
\<close>

definition NullFunc :: "('a::real_vector) func" where
  "NullFunc = \<lparr>is_NullFunc = True, grad = (\<lambda>arr. 0), prox = (\<lambda>arr tau. arr),
     fenchel_prox = (\<lambda>arr sigma. 0), diff_lipschitz = Finite 0,
     func_shape = (Some 1, None)\<rparr>"

definition NullOp :: "('a::real_vector) linop" where
  "NullOp = \<lparr>call = (\<lambda>arr. 0), adjoint = (\<lambda>arr. 0), lipschitz = Finite 0,
     op_shape = (None, None)\<rparr>"

definition IdentityOp :: "('a::real_vector) linop" where
  "IdentityOp = \<lparr>call = (\<lambda>arr. arr),
     adjoint = (\<lambda>arr. case arr of None \<Rightarrow> 0 | Some v \<Rightarrow> v),
     lipschitz = Finite 1, op_shape = (None, None)\<rparr>"

subsection \<open>The solver object and its constructor\<close>

text \<open>
  The attributes \<open>_f\<close>, \<open>_g\<close>, \<open>_h\<close> and \<open>_K\<close> of the solver. \<open>__init__\<close> always
  assigns the first three; \<open>_K\<close> is assigned on some paths only, and \<open>self_K = None\<close>
  is the object without that attribute.
\<close>

record 'a solver =
  self_f :: "'a func"
  self_g :: "'a func"
  self_h :: "'a func"
  self_K :: "'a linop option"

text \<open>
  \<open>PrimalDualSplitting.__init__(f, g, h, K)\<close>. The call of the scaffolding's
  constructor (folder, verbosity, logging) is outside this module and left out.
\<close>

definition PrimalDualSplitting_init ::
  "('a::real_vector) func option \<Rightarrow> 'a func option \<Rightarrow> 'a func option \<Rightarrow> 'a linop option
     \<Rightarrow> error + 'a solver" where
  "PrimalDualSplitting_init f g h K =
     (let slf = \<lparr>self_f = (case f of None \<Rightarrow> NullFunc | Some fv \<Rightarrow> fv),
                 self_g = (case g of None \<Rightarrow> NullFunc | Some gv \<Rightarrow> gv),
                 self_h = (case h of None \<Rightarrow> NullFunc | Some hv \<Rightarrow> hv),
                 self_K = None\<rparr>
      in case (case h of
                 Some hv \<Rightarrow>
                   (case K of
                      None \<Rightarrow> Inr (slf\<lparr>self_K := Some (IdentityOp\<lparr>lipschitz := Finite 1\<rparr>)\<rparr>)
                    | Some Kv \<Rightarrow>
                        if fst (op_shape Kv) = snd (func_shape hv) \<or> snd (func_shape hv) = None
                        then Inr (slf\<lparr>self_K := Some Kv\<rparr>)
                        else Inl ValueError)
               | None \<Rightarrow>
                   (case K of
                      None \<Rightarrow> Inr (slf\<lparr>self_K := Some NullOp\<rparr>)
                    | Some Kv \<Rightarrow> Inr slf)) of
           Inl e \<Rightarrow> Inl e
         | Inr slf' \<Rightarrow>
             if f = None \<and> g = None \<and> h = None then Inl ValueError else Inr slf')"

subsection \<open>The iterate state and the parameter policy\<close>

text \<open>
  The dictionary \<open>_mstate\<close>, one field per key; \<open>None\<close> is Python's \<open>None\<close>.
\<close>

record 'a mstate =
  mst_x :: "'a option"
  mst_x_prev :: "'a option"
  mst_z :: "'a option"
  mst_z_prev :: "'a option"
  mst_tau :: "real option"
  mst_sigma :: "real option"
  mst_rho :: "real option"
  mst_beta :: "real option"

definition empty_mstate :: "'a mstate" where
  "empty_mstate = \<lparr>mst_x = None, mst_x_prev = None, mst_z = None, mst_z_prev = None,
     mst_tau = None, mst_sigma = None, mst_rho = None, mst_beta = None\<rparr>"

text \<open>\<open>set_dual_variable(z)\<close>: \<open>None\<close> for a null \<open>h\<close>, else \<open>z\<close> or a copy of \<open>mst["x"]\<close>.\<close>

definition set_dual_variable ::
  "'a solver \<Rightarrow> 'a mstate \<Rightarrow> 'a option \<Rightarrow> error + 'a option" where
  "set_dual_variable slf mst z =
     (if is_NullFunc (self_h slf) then Inr None
      else (case z of
              None \<Rightarrow> (case mst_x mst of None \<Rightarrow> Inl AttributeError | Some xv \<Rightarrow> Inr (Some xv))
            | Some zv \<Rightarrow> Inr (Some zv)))"

text \<open>\<open>set_beta(beta)\<close>.\<close>

definition set_beta :: "'a solver \<Rightarrow> real option \<Rightarrow> error + real" where
  "set_beta slf beta =
     (case beta of
        None \<Rightarrow>
          (case diff_lipschitz (self_f slf) of
             Finite dl \<Rightarrow> Inr dl
           | NonFinite \<Rightarrow> Inl ValueError)
      | Some b \<Rightarrow> if b > 0 then Inr b else Inl ValueError)"

text \<open>
  The two default step sizes for a non-null \<open>h\<close> are the expressions
  \<open>(1 / L ** 2) * ((-beta / 4) + math.sqrt((beta ** 2 / 16) + L ** 2))\<close> and \<open>1 / L\<close>
  on doubles, with \<open>L = K._lipschitz\<close>. What they evaluate to is not what they are
  worth over the reals: \<open>L ** 2\<close> underflows to zero or overflows, the sum cancels when
  \<open>beta\<close> is large against \<open>L\<close>, and a zero or an overflow raises with Python floats
  (\<open>ZeroDivisionError\<close>, \<open>OverflowError\<close>) where numpy scalars go on with \<open>inf\<close> or
  \<open>nan\<close>. Which floats are in play is decided by \<open>pycsou.runtime\<close> and by the
  operator, outside this module. The evaluation is therefore a parameter of the model:
  \<open>eval_balanced fl beta L\<close> and \<open>eval_inverse fl L\<close> are the outcome of evaluating
  the first and the second expression, an error or the number obtained. (A result
  \<open>inf\<close> or \<open>nan\<close> is no value of the real-valued state, here as in the rest of the
  model.)
\<close>

record float_eval =
  eval_balanced :: "real \<Rightarrow> real \<Rightarrow> error + real"
  eval_inverse :: "real \<Rightarrow> error + real"

text \<open>
  The evaluation with no rounding, by Python floats read as reals. It is what the
  doubles give where every intermediate result is a double (for instance \<open>beta = 12\<close>,
  \<open>L = 4\<close>, and the zero divisor at \<open>L = 0\<close>); it stands in where a closed statement
  needs an evaluator.
\<close>

definition real_arith :: float_eval where
  "real_arith =
     \<lparr>eval_balanced = (\<lambda>b L. if L\<^sup>2 = 0 then Inl ZeroDivisionError
                              else Inr ((1 / L\<^sup>2) * ((- b / 4) + sqrt (b\<^sup>2 / 16 + L\<^sup>2)))),
      eval_inverse = (\<lambda>L. if L = 0 then Inl ZeroDivisionError else Inr (1 / L))\<rparr>"

text \<open>
  \<open>set_step_sizes(tau, sigma)\<close>. In the two defaults for a non-null \<open>h\<close> the one
  value computed is assigned to both \<open>tau\<close> and \<open>sigma\<close>.
\<close>

definition set_step_sizes ::
  "float_eval \<Rightarrow> 'a solver \<Rightarrow> 'a mstate \<Rightarrow> real option \<Rightarrow> real option
     \<Rightarrow> error + (real \<times> real)" where
  "set_step_sizes fl slf mst tau sigma =
     (case (tau, sigma) of
        (Some t, None) \<Rightarrow> if t > 0 then Inr (t, t) else Inl ValueError
      | (None, Some s) \<Rightarrow> if s > 0 then Inr (s, s) else Inl ValueError
      | (None, None) \<Rightarrow>
          (case mst_beta mst of
             None \<Rightarrow> Inl TypeError
           | Some b \<Rightarrow>
               if b > 0 then
                 (if is_NullFunc (self_h slf) then Inr (2 / b, 0)
                  else (case self_K slf of
                          None \<Rightarrow> Inl AttributeError
                        | Some K \<Rightarrow>
                            (case lipschitz K of
                               NonFinite \<Rightarrow> Inl ValueError
                             | Finite L \<Rightarrow>
                                 (case eval_balanced fl b L of
                                    Inl e \<Rightarrow> Inl e
                                  | Inr t \<Rightarrow> Inr (t, t)))))
               else
                 (if is_NullFunc (self_h slf) then Inr (1, 0)
                  else (case self_K slf of
                          None \<Rightarrow> Inl AttributeError
                        | Some K \<Rightarrow>
                            (case lipschitz K of
                               NonFinite \<Rightarrow> Inl ValueError
                             | Finite L \<Rightarrow>
                                 (case eval_inverse fl L of
                                    Inl e \<Rightarrow> Inl e
                                  | Inr t \<Rightarrow> Inr (t, t))))))
      | (Some t, Some s) \<Rightarrow> Inr (t, s))"

text \<open>\<open>set_momentum_term(rho)\<close>.\<close>

definition set_momentum_term :: "'a mstate \<Rightarrow> real option \<Rightarrow> error + real" where
  "set_momentum_term mst rho =
     (case rho of
        None \<Rightarrow>
          (case mst_beta mst of
             None \<Rightarrow> Inl TypeError
           | Some b \<Rightarrow> Inr (if b > 0 then 0.9 else 1))
      | Some r \<Rightarrow> Inr r)"

text \<open>
  \<open>PrimalDualSplitting.m_init(x0, z0, tau, sigma, rho, beta)\<close>: the assignments
  in the source's order, each reading the dictionary the earlier ones wrote. A raise
  aborts the initialisation. \<open>fl\<close> is the float evaluation that \<open>set_step_sizes\<close>
  uses. The decorator \<open>enforce_precision\<close> and \<open>pycrt.coerce\<close>
  fix the float width of the arguments and results; on real numbers they change nothing.
\<close>

definition m_init ::
  "float_eval \<Rightarrow> 'a solver \<Rightarrow> 'a mstate \<Rightarrow> 'a \<Rightarrow> 'a option \<Rightarrow> real option \<Rightarrow> real option
     \<Rightarrow> real option \<Rightarrow> real option \<Rightarrow> error + 'a mstate" where
  "m_init fl slf mst x0 z0 tau sigma rho beta =
     (let mst1 = mst\<lparr>mst_x := Some x0, mst_x_prev := Some x0\<rparr>
      in case set_dual_variable slf mst1 z0 of
           Inl e \<Rightarrow> Inl e
         | Inr z \<Rightarrow>
             (let mst2 = mst1\<lparr>mst_z := z, mst_z_prev := z\<rparr>
              in case set_beta slf beta of
                   Inl e \<Rightarrow> Inl e
                 | Inr b \<Rightarrow>
                     (let mst3 = mst2\<lparr>mst_beta := Some b\<rparr>
                      in case set_step_sizes fl slf mst3 tau sigma of
                           Inl e \<Rightarrow> Inl e
                         | Inr (t, s) \<Rightarrow>
                             (let mst4 = mst3\<lparr>mst_tau := Some t, mst_sigma := Some s\<rparr>
                              in case set_momentum_term mst4 rho of
                                   Inl e \<Rightarrow> Inl e
                                 | Inr r \<Rightarrow> Inr (mst4\<lparr>mst_rho := Some r\<rparr>)))))"

subsection \<open>The update step\<close>

text \<open>
  \<open>PrimalDualSplitting.m_step()\<close>. Arithmetic on a \<open>None\<close> entry raises \<open>TypeError\<close>
  and reading the unset \<open>_K\<close> raises \<open>AttributeError\<close>, both before the first
  assignment to the dictionary. The assignment to \<open>mst["z"]\<close> comes first; the
  assignment to \<open>mst["x"]\<close> reads the dictionary it left.
\<close>

definition m_step :: "('a::real_vector) solver \<Rightarrow> 'a mstate \<Rightarrow> error + 'a mstate" where
  "m_step slf mst =
     (case mst_x mst of
        None \<Rightarrow> Inl TypeError
      | Some xv \<Rightarrow>
     (case mst_tau mst of
        None \<Rightarrow> Inl TypeError
      | Some tau \<Rightarrow>
     (case self_K slf of
        None \<Rightarrow> Inl AttributeError
      | Some K \<Rightarrow>
          (let x_temp = prox (self_g slf)
                 (xv - tau *\<^sub>R grad (self_f slf) xv - tau *\<^sub>R adjoint K (mst_z mst)) tau
           in case (if \<not> is_NullFunc (self_h slf) then
                      (let u = 2 *\<^sub>R x_temp - xv
                       in case (mst_z mst, mst_sigma mst, mst_rho mst) of
                            (Some zv, Some sigma, Some rho) \<Rightarrow>
                              (let z_temp = fenchel_prox (self_h slf) (zv + sigma *\<^sub>R call K u) sigma
                               in Inr (mst\<lparr>mst_z := Some (rho *\<^sub>R z_temp + (1 - rho) *\<^sub>R zv)\<rparr>))
                          | _ \<Rightarrow> Inl TypeError)
                    else Inr mst) of
                Inl e \<Rightarrow> Inl e
              | Inr mst1 \<Rightarrow>
                  (case (mst_rho mst1, mst_x mst1) of
                     (Some rho, Some xv1) \<Rightarrow>
                       Inr (mst1\<lparr>mst_x := Some (rho *\<^sub>R x_temp + (1 - rho) *\<^sub>R xv1)\<rparr>)
                   | _ \<Rightarrow> Inl TypeError)))))"

text \<open>
  \<open>n\<close> calls of \<open>m_step\<close> in a row, as the loop driver makes them. A call that raises
  leaves the dictionary as it found it and ends the run; the result is the dictionary
  at the end and the error, if any.
\<close>

fun steps :: "nat \<Rightarrow> ('a::real_vector) solver \<Rightarrow> 'a mstate \<Rightarrow> 'a mstate \<times> error option" where
  "steps 0 slf mst = (mst, None)"
| "steps (Suc n) slf mst =
     (case m_step slf mst of
        Inl e \<Rightarrow> (mst, Some e)
      | Inr mst' \<Rightarrow> steps n slf mst')"

subsection \<open>The three variants\<close>

text \<open>
  Each variant's \<open>__init__\<close> calls \<open>super(Class).__init__(f=..., g=..., ...)\<close>.
  \<open>super\<close> with the class alone is an unbound super object, and \<open>__init__\<close> looked up
  on it is the initialiser of that super object, not \<open>PrimalDualSplitting.__init__\<close>:
  it takes no keyword argument and raises \<open>TypeError\<close> when given one. The argument
  is the list of the keywords of the call.
\<close>

definition unbound_super_init :: "string list \<Rightarrow> error + unit" where
  "unbound_super_init kwargs = (if kwargs = [] then Inr () else Inl TypeError)"

definition ChambollePockSplitting_init ::
  "'a func option \<Rightarrow> 'a func option \<Rightarrow> 'a linop option \<Rightarrow> error + unit" where
  "ChambollePockSplitting_init g h K =
     unbound_super_init [''f'', ''g'', ''h'', ''k'', ''folder'', ''exist_ok'',
       ''writeback_rate'', ''verbosity'', ''log_var'']"

definition DouglasRachfordSplitting_init ::
  "'a func option \<Rightarrow> 'a func option \<Rightarrow> error + unit" where
  "DouglasRachfordSplitting_init g h =
     unbound_super_init [''f'', ''g'', ''h'', ''K'', ''folder'', ''exist_ok'',
       ''writeback_rate'', ''verbosity'', ''log_var'']"

definition ForwardBackwardSplitting_init ::
  "'a func option \<Rightarrow> 'a func option \<Rightarrow> error + unit" where
  "ForwardBackwardSplitting_init f g =
     unbound_super_init [''f'', ''g'', ''h'', ''K'', ''folder'', ''exist_ok'',
       ''writeback_rate'', ''verbosity'', ''log_var'']"

text \<open>
  The variants' \<open>m_init\<close>. An argument is the value the method body sees: the caller's,
  or the default of the signature (\<open>tau=1.0\<close> for Chambolle-Pock and Douglas-Rachford,
  \<open>rho=1.0\<close> for Forward-Backward, \<open>None\<close> for the others). Keys the method does not
  assign keep what the dictionary held.
\<close>

definition ChambollePockSplitting_m_init ::
  "'a solver \<Rightarrow> 'a mstate \<Rightarrow> 'a \<Rightarrow> 'a option \<Rightarrow> real option \<Rightarrow> real option \<Rightarrow> real option
     \<Rightarrow> error + 'a mstate" where
  "ChambollePockSplitting_m_init slf mst x0 z0 tau sigma rho =
     (let mst1 = mst\<lparr>mst_x := Some x0, mst_x_prev := Some x0\<rparr>
      in case set_dual_variable slf mst1 z0 of
           Inl e \<Rightarrow> Inl e
         | Inr z \<Rightarrow>
             Inr (mst1\<lparr>mst_z := z, mst_z_prev := z, mst_tau := tau, mst_sigma := sigma,
                    mst_rho := rho\<rparr>))"

definition DouglasRachfordSplitting_m_init ::
  "'a solver \<Rightarrow> 'a mstate \<Rightarrow> 'a \<Rightarrow> 'a option \<Rightarrow> real option \<Rightarrow> error + 'a mstate" where
  "DouglasRachfordSplitting_m_init slf mst x0 z0 tau =
     (let mst1 = mst\<lparr>mst_x := Some x0, mst_x_prev := Some x0\<rparr>
      in case set_dual_variable slf mst1 z0 of
           Inl e \<Rightarrow> Inl e
         | Inr z \<Rightarrow>
             (let mst2 = mst1\<lparr>mst_z := z, mst_z_prev := z, mst_tau := tau\<rparr>
              in case tau of
                   None \<Rightarrow> Inl TypeError
                 | Some t \<Rightarrow>
                     if t = 0 then Inl ZeroDivisionError
                     else Inr (mst2\<lparr>mst_sigma := Some (1.0 / t), mst_rho := Some 1.0\<rparr>)))"

definition ForwardBackwardSplitting_m_init ::
  "'a solver \<Rightarrow> 'a mstate \<Rightarrow> 'a \<Rightarrow> 'a option \<Rightarrow> real option \<Rightarrow> real option \<Rightarrow> real option
     \<Rightarrow> error + 'a mstate" where
  "ForwardBackwardSplitting_m_init slf mst x0 z0 tau rho beta =
     (let mst1 = mst\<lparr>mst_x := Some x0, mst_x_prev := Some x0\<rparr>
      in case set_dual_variable slf mst1 z0 of
           Inl e \<Rightarrow> Inl e
         | Inr z \<Rightarrow>
             (let mst2 = mst1\<lparr>mst_z := z, mst_z_prev := z, mst_tau := tau\<rparr>
              in case set_beta slf beta of
                   Inl e \<Rightarrow> Inl e
                 | Inr b \<Rightarrow> Inr (mst2\<lparr>mst_beta := Some b, mst_rho := rho\<rparr>)))"

subsection \<open>Concrete terms on the real line\<close>

text \<open>
  One-dimensional terms for the scenarios below: \<open>F(x) = x\<^sup>2\<close> with gradient \<open>2x\<close> and
  \<open>\<beta> = 2\<close>, \<open>H(x) = |x|\<close> with soft thresholding as prox and clipping to \<open>[-1, 1]\<close>
  as the prox of its conjugate, and the operator \<open>x \<mapsto> c x\<close> of norm \<open>|c|\<close>.
\<close>

definition sq_func :: "real func" where
  "sq_func = \<lparr>is_NullFunc = False, grad = (\<lambda>arr. 2 * arr),
     prox = (\<lambda>arr tau. arr / (1 + 2 * tau)),
     fenchel_prox = (\<lambda>arr sigma. 2 * arr / (2 + sigma)),
     diff_lipschitz = Finite 2, func_shape = (Some 1, Some 1)\<rparr>"

definition abs_func :: "real func" where
  "abs_func = \<lparr>is_NullFunc = False, grad = (\<lambda>arr. sgn arr),
     prox = (\<lambda>arr tau. sgn arr * max (\<bar>arr\<bar> - tau) 0),
     fenchel_prox = (\<lambda>arr sigma. max (- 1) (min 1 arr)),
     diff_lipschitz = NonFinite, func_shape = (Some 1, Some 1)\<rparr>"

definition scale_op :: "real \<Rightarrow> real linop" where
  "scale_op c = \<lparr>call = (\<lambda>arr. c * arr),
     adjoint = (\<lambda>arr. case arr of None \<Rightarrow> 0 | Some v \<Rightarrow> c * v),
     lipschitz = Finite \<bar>c\<bar>, op_shape = (Some 1, Some 1)\<rparr>"

section \<open>Auxiliary facts\<close>

text \<open>
  The Forward-Backward scenario of the spec: \<open>F(x) = x\<^sup>2\<close>, no \<open>g\<close>, no \<open>h\<close>, no \<open>K\<close>,
  started at \<open>x0 = 5\<close>. The constructor and the initialisation are evaluated once here,
  and so are the first two steps.
\<close>

lemma fb_construct:
  "PrimalDualSplitting_init (Some sq_func) None None None =
     Inr \<lparr>self_f = sq_func, self_g = NullFunc, self_h = NullFunc, self_K = Some NullOp\<rparr>"
  by (simp add: PrimalDualSplitting_init_def)

lemma fb_init:
  "m_init fl \<lparr>self_f = sq_func, self_g = NullFunc, self_h = NullFunc, self_K = Some NullOp\<rparr>
       empty_mstate 5 z0 None None None None =
     Inr \<lparr>mst_x = Some 5, mst_x_prev = Some 5, mst_z = None, mst_z_prev = None,
          mst_tau = Some 1, mst_sigma = Some 0, mst_rho = Some 0.9, mst_beta = Some 2\<rparr>"
  by (simp add: m_init_def set_dual_variable_def set_beta_def set_step_sizes_def
      set_momentum_term_def empty_mstate_def NullFunc_def sq_func_def)

lemma fb_step1:
  "m_step \<lparr>self_f = sq_func, self_g = NullFunc, self_h = NullFunc, self_K = Some NullOp\<rparr>
       \<lparr>mst_x = Some 5, mst_x_prev = Some 5, mst_z = None, mst_z_prev = None,
        mst_tau = Some 1, mst_sigma = Some 0, mst_rho = Some 0.9, mst_beta = Some 2\<rparr> =
     Inr \<lparr>mst_x = Some (- 4), mst_x_prev = Some 5, mst_z = None, mst_z_prev = None,
          mst_tau = Some 1, mst_sigma = Some 0, mst_rho = Some 0.9, mst_beta = Some 2\<rparr>"
  by (simp add: m_step_def NullFunc_def NullOp_def sq_func_def)

lemma fb_step2:
  "m_step \<lparr>self_f = sq_func, self_g = NullFunc, self_h = NullFunc, self_K = Some NullOp\<rparr>
       \<lparr>mst_x = Some (- 4), mst_x_prev = Some 5, mst_z = None, mst_z_prev = None,
        mst_tau = Some 1, mst_sigma = Some 0, mst_rho = Some 0.9, mst_beta = Some 2\<rparr> =
     Inr \<lparr>mst_x = Some (16 / 5), mst_x_prev = Some 5, mst_z = None, mst_z_prev = None,
          mst_tau = Some 1, mst_sigma = Some 0, mst_rho = Some 0.9, mst_beta = Some 2\<rparr>"
  by (simp add: m_step_def NullFunc_def NullOp_def sq_func_def)

text \<open>With a null \<open>h\<close> a step leaves both dual entries as they are, and so does a run.\<close>

lemma m_step_null_h_frame:
  assumes "is_NullFunc (self_h slf)" and "m_step slf s = Inr s'"
  shows "mst_z s' = mst_z s \<and> mst_z_prev s' = mst_z_prev s"
  using assms by (auto simp add: m_step_def Let_def split: option.splits)

lemma steps_null_h_frame:
  assumes "is_NullFunc (self_h slf)"
  shows "mst_z (fst (steps n slf s)) = mst_z s
       \<and> mst_z_prev (fst (steps n slf s)) = mst_z_prev s"
proof (induction n arbitrary: s)
  case 0
  show ?case by simp
next
  case (Suc n)
  show ?case
  proof (cases "m_step slf s")
    case (Inl e)
    then show ?thesis by simp
  next
    case (Inr s')
    with m_step_null_h_frame [OF assms Inr] Suc.IH [of s'] show ?thesis by simp
  qed
qed

lemma m_init_null_h:
  assumes "is_NullFunc (self_h slf)" and "m_init fl slf mst x0 z0 tau sigma rho beta = Inr s"
  shows "mst_z s = None \<and> mst_z_prev s = None"
  using assms
  by (auto simp add: m_init_def set_dual_variable_def Let_def split: sum.splits prod.splits)

text \<open>
  The balanced step size \<open>t\<close> is the positive root of \<open>2 L\<^sup>2 t\<^sup>2 + b t - 2 = 0\<close>: it
  saturates the convergence inequality.
\<close>

lemma balanced_root:
  fixes b L :: real
  assumes "0 < b" and "L \<noteq> 0"
  defines "t \<equiv> (1 / L\<^sup>2) * ((- b / 4) + sqrt (b\<^sup>2 / 16 + L\<^sup>2))"
  shows "0 < t \<and> 1 / t - t * L\<^sup>2 = b / 2"
proof -
  define s where "s = sqrt (b\<^sup>2 / 16 + L\<^sup>2)"
  have L2: "0 < L\<^sup>2" using assms(2) by simp
  have nn: "0 \<le> b\<^sup>2 / 16 + L\<^sup>2" by simp
  have s2: "s\<^sup>2 = b\<^sup>2 / 16 + L\<^sup>2"
    unfolding s_def using nn by (rule real_sqrt_pow2)
  have b4: "(b / 4)\<^sup>2 = b\<^sup>2 / 16" by (simp add: power_divide)
  have "(b / 4)\<^sup>2 < s\<^sup>2" unfolding s2 b4 using L2 by linarith
  moreover have "0 \<le> s" unfolding s_def using nn by (rule real_sqrt_ge_zero)
  ultimately have gt: "b / 4 < s"
    by (rule power2_less_imp_less)
  have t_eq: "t = (s - b / 4) / L\<^sup>2" unfolding t_def s_def by simp
  have "(s - b / 4) * (s + b / 4) = s\<^sup>2 - (b / 4)\<^sup>2"
    by (simp add: algebra_simps power2_eq_square)
  then have prod: "(s - b / 4) * (s + b / 4) = L\<^sup>2"
    unfolding s2 b4 by simp
  have pos: "0 < t" unfolding t_eq using gt L2 by simp
  have ne: "s - b / 4 \<noteq> 0" using gt by simp
  have "1 / t = L\<^sup>2 / (s - b / 4)" unfolding t_eq by simp
  also have "\<dots> = ((s - b / 4) * (s + b / 4)) / (s - b / 4)" unfolding prod ..
  also have "\<dots> = s + b / 4" using ne by simp
  finally have inv: "1 / t = s + b / 4" .
  have tl: "t * L\<^sup>2 = s - b / 4" unfolding t_eq using L2 by simp
  show ?thesis using pos inv tl by simp
qed


text \<open>
  When both step sizes are given, \<open>set_step_sizes\<close> returns them untouched: none of its
  three branches is taken.
\<close>

lemma set_step_sizes_both_given:
  "set_step_sizes fl slf mst (Some t) (Some sg) = Inr (t, sg)"
  by (simp add: set_step_sizes_def)

text \<open>What the variants' \<open>m_init\<close> store when they return.\<close>

lemma ChambollePockSplitting_m_init_params:
  assumes "ChambollePockSplitting_m_init slf mst x0 z0 tau sigma rho = Inr s"
  shows "mst_tau s = tau \<and> mst_sigma s = sigma \<and> mst_rho s = rho"
  using assms
  by (auto simp add: ChambollePockSplitting_m_init_def Let_def split: sum.splits)

lemma DouglasRachfordSplitting_m_init_params:
  assumes "DouglasRachfordSplitting_m_init slf mst x0 z0 (Some t) = Inr s"
  shows "mst_tau s = Some t \<and> mst_sigma s = Some (1 / t) \<and> mst_rho s = Some 1"
  using assms
  by (auto simp add: DouglasRachfordSplitting_m_init_def Let_def split: sum.splits if_splits)

lemma ForwardBackwardSplitting_m_init_params:
  assumes "ForwardBackwardSplitting_m_init slf mst x0 z0 tau rho beta = Inr s"
  shows "mst_tau s = tau \<and> mst_rho s = rho"
  using assms
  by (auto simp add: ForwardBackwardSplitting_m_init_def Let_def split: sum.splits)

section \<open>The update step\<close>

text \<open>
  C1: one \<open>m_step\<close> on a state whose \<open>x\<close>, \<open>tau\<close> and \<open>rho\<close> are set (and \<open>z\<close>, \<open>sigma\<close>
  when \<open>h\<close> is not null), for any black boxes \<open>f\<close>, \<open>g\<close>, \<open>h\<close>, \<open>K\<close>. It computes
  \<open>x_temp = g.prox(x - tau * f.grad(x) - tau * K.adjoint(z), tau)\<close>. When \<open>h\<close> is null the
  only change is \<open>x := rho * x_temp + (1 - rho) * x\<close>. When \<open>h\<close> is not null it also sets
  \<open>z := rho * z_temp + (1 - rho) * z\<close> with \<open>u = 2 * x_temp - x\<close> and
  \<open>z_temp = h.fenchel_prox(z + sigma * K(u), sigma)\<close>, where \<open>x\<close> is the value before
  the step in both updates: the blend of \<open>x\<close> comes after the dual update.
\<close>

theorem m_step_update:
  assumes "mst_x s = Some xv" and "mst_tau s = Some t" and "mst_rho s = Some r"
    and "self_K slf = Some K"
    and "is_NullFunc (self_h slf) \<or> (mst_z s = Some zv \<and> mst_sigma s = Some sg)"
  shows "m_step slf s =
     Inr (let x_temp = prox (self_g slf)
                 (xv - t *\<^sub>R grad (self_f slf) xv - t *\<^sub>R adjoint K (mst_z s)) t
          in if is_NullFunc (self_h slf)
             then s\<lparr>mst_x := Some (r *\<^sub>R x_temp + (1 - r) *\<^sub>R xv)\<rparr>
             else (let u = 2 *\<^sub>R x_temp - xv;
                       z_temp = fenchel_prox (self_h slf) (zv + sg *\<^sub>R call K u) sg
                   in s\<lparr>mst_z := Some (r *\<^sub>R z_temp + (1 - r) *\<^sub>R zv),
                        mst_x := Some (r *\<^sub>R x_temp + (1 - r) *\<^sub>R xv)\<rparr>))"
  using assms by (auto simp add: m_step_def Let_def)

text \<open>
  An instance with all four terms at work: \<open>F(x) = x\<^sup>2\<close>, \<open>H(x) = |x|\<close>, \<open>K\<close> the
  identity scaling, \<open>x = 5\<close>, \<open>z = 1\<close>, \<open>tau = sigma = rho = 1/2\<close>. Then
  \<open>x_temp = -1/2\<close>, \<open>u = -6\<close>, \<open>z_temp = -1\<close>, \<open>z = 0\<close> and \<open>x = 9/4\<close>.
\<close>

theorem m_step_update_witness:
  "m_step \<lparr>self_f = sq_func, self_g = NullFunc, self_h = abs_func, self_K = Some (scale_op 1)\<rparr>
     \<lparr>mst_x = Some 5, mst_x_prev = Some 5, mst_z = Some 1, mst_z_prev = Some 1,
      mst_tau = Some (1/2), mst_sigma = Some (1/2), mst_rho = Some (1/2), mst_beta = Some 2\<rparr>
   = Inr \<lparr>mst_x = Some (9/4), mst_x_prev = Some 5, mst_z = Some 0, mst_z_prev = Some 1,
      mst_tau = Some (1/2), mst_sigma = Some (1/2), mst_rho = Some (1/2), mst_beta = Some 2\<rparr>"
  using m_step_update [of "\<lparr>mst_x = Some 5, mst_x_prev = Some 5, mst_z = Some 1,
      mst_z_prev = Some 1, mst_tau = Some (1/2), mst_sigma = Some (1/2), mst_rho = Some (1/2),
      mst_beta = Some 2\<rparr>"
      5 "1/2" "1/2"
      "\<lparr>self_f = sq_func, self_g = NullFunc, self_h = abs_func, self_K = Some (scale_op 1)\<rparr>"
      "scale_op 1" 1 "1/2"]
  by (simp add: sq_func_def NullFunc_def abs_func_def scale_op_def Let_def)

text \<open>
  C2: the scenario \<open>F(x) = x\<^sup>2\<close> (\<open>\<beta> = 2\<close>), \<open>g\<close> and \<open>h\<close> null, no \<open>K\<close>, no override.
  The constructor installs the null operator; the initialisation from \<open>x0 = 5\<close> resolves
  \<open>tau = 2 / \<beta> = 1\<close> and \<open>rho = 0.9\<close>; \<open>x_temp = 5 - 1 * (2 * 5) = -5\<close>, the prox of the
  null \<open>g\<close> being the identity; and one step gives \<open>x = 0.9 * (-5) + 0.1 * 5 = -4\<close>.
\<close>

theorem forward_backward_scenario:
  "PrimalDualSplitting_init (Some sq_func) None None None =
     Inr \<lparr>self_f = sq_func, self_g = NullFunc, self_h = NullFunc, self_K = Some NullOp\<rparr>
   \<and> m_init fl \<lparr>self_f = sq_func, self_g = NullFunc, self_h = NullFunc, self_K = Some NullOp\<rparr>
       empty_mstate 5 None None None None None =
     Inr \<lparr>mst_x = Some 5, mst_x_prev = Some 5, mst_z = None, mst_z_prev = None,
          mst_tau = Some 1, mst_sigma = Some 0, mst_rho = Some 0.9, mst_beta = Some 2\<rparr>
   \<and> prox NullFunc (5 - 1 *\<^sub>R grad sq_func 5 - 1 *\<^sub>R adjoint NullOp None) 1 = (- 5 :: real)
   \<and> m_step \<lparr>self_f = sq_func, self_g = NullFunc, self_h = NullFunc, self_K = Some NullOp\<rparr>
       \<lparr>mst_x = Some 5, mst_x_prev = Some 5, mst_z = None, mst_z_prev = None,
        mst_tau = Some 1, mst_sigma = Some 0, mst_rho = Some 0.9, mst_beta = Some 2\<rparr> =
     Inr \<lparr>mst_x = Some (- 4), mst_x_prev = Some 5, mst_z = None, mst_z_prev = None,
          mst_tau = Some 1, mst_sigma = Some 0, mst_rho = Some 0.9, mst_beta = Some 2\<rparr>"
proof (intro conjI)
  show "prox NullFunc (5 - 1 *\<^sub>R grad sq_func 5 - 1 *\<^sub>R adjoint NullOp None) 1 = (- 5 :: real)"
    by (simp add: NullFunc_def NullOp_def sq_func_def)
qed (rule fb_construct fb_init fb_step1)+

section \<open>The default step sizes\<close>

text \<open>
  Over the reals the closed form of the source is the positive root that saturates the
  convergence inequality: where the evaluation is exact, its result \<open>t\<close> is positive
  and \<open>1 / t - t * L\<^sup>2 = \<beta> / 2\<close>. This is a fact about the formula; the doubles keep
  it only as far as their rounding allows, and the theorem below does not rest on it.
\<close>

lemma real_arith_saturates:
  assumes "0 < b" and "L \<noteq> 0" and "eval_balanced real_arith b L = Inr t"
  shows "0 < t \<and> 1 / t - t * L\<^sup>2 = b / 2"
proof -
  have "t = (1 / L\<^sup>2) * ((- b / 4) + sqrt (b\<^sup>2 / 16 + L\<^sup>2))"
    using assms(2,3) by (simp add: real_arith_def)
  then show ?thesis using balanced_root [OF assms(1,2)] by simp
qed




section \<open>The dual variable when \<open>h\<close> is null\<close>

text \<open>
  C4: when \<open>h\<close> is null, \<open>set_dual_variable\<close> returns \<open>None\<close> whatever \<open>z0\<close> is, the
  initialised state has \<open>z = z_prev = None\<close>, and after any number \<open>n\<close> of steps,
  whether they all return or one raises, \<open>z\<close> and \<open>z_prev\<close> are still \<open>None\<close>.
\<close>

theorem null_h_dual_absent:
  assumes "is_NullFunc (self_h slf)" and "m_init fl slf mst x0 z0 tau sigma rho beta = Inr s"
  shows "set_dual_variable slf mst' z0 = Inr None
       \<and> mst_z s = None \<and> mst_z_prev s = None
       \<and> mst_z (fst (steps n slf s)) = None \<and> mst_z_prev (fst (steps n slf s)) = None"
proof -
  have "set_dual_variable slf mst' z0 = Inr None"
    using assms(1) by (simp add: set_dual_variable_def)
  moreover note m_init_null_h [OF assms] steps_null_h_frame [OF assms(1), of n s]
  ultimately show ?thesis by simp
qed

text \<open>
  An instance: the Forward-Backward scenario, initialised with a dual start \<open>z0 = 7\<close>
  that is dropped, and run for two steps, which both return.
\<close>

theorem null_h_dual_absent_witness:
  "mst_z (fst (steps (Suc (Suc 0))
       \<lparr>self_f = sq_func, self_g = NullFunc, self_h = NullFunc, self_K = Some NullOp\<rparr>
       \<lparr>mst_x = Some 5, mst_x_prev = Some 5, mst_z = None, mst_z_prev = None,
        mst_tau = Some 1, mst_sigma = Some 0, mst_rho = Some 0.9, mst_beta = Some 2\<rparr>)) = None
   \<and> steps (Suc (Suc 0))
       \<lparr>self_f = sq_func, self_g = NullFunc, self_h = NullFunc, self_K = Some NullOp\<rparr>
       \<lparr>mst_x = Some 5, mst_x_prev = Some 5, mst_z = None, mst_z_prev = None,
        mst_tau = Some 1, mst_sigma = Some 0, mst_rho = Some 0.9, mst_beta = Some 2\<rparr> =
      (\<lparr>mst_x = Some (16 / 5), mst_x_prev = Some 5, mst_z = None, mst_z_prev = None,
        mst_tau = Some 1, mst_sigma = Some 0, mst_rho = Some 0.9, mst_beta = Some 2\<rparr>, None)"
proof -
  have h: "is_NullFunc (self_h \<lparr>self_f = sq_func, self_g = NullFunc, self_h = NullFunc,
      self_K = Some (NullOp :: real linop)\<rparr>)"
    by (simp add: NullFunc_def)
  from null_h_dual_absent [OF h fb_init [of real_arith "Some 7"], of empty_mstate "Suc (Suc 0)"]
  show ?thesis by (simp add: fb_step1 fb_step2)
qed

section \<open>The variants\<close>

text \<open>
  C5, on the code: none of the three variants can be constructed. Each \<open>__init__\<close> hands
  its keywords to the initialiser of an unbound super object, which raises \<open>TypeError\<close>,
  so \<open>PrimalDualSplitting.__init__\<close> never runs and no term is forced to null. (What
  the variants' \<open>m_init\<close> would store is in the lemmas of the auxiliary facts:
  Forward-Backward stores the \<open>tau\<close> it is given, \<open>None\<close> by default, and derives
  nothing from \<open>\<beta>\<close>.)
\<close>

theorem variant_constructors_raise:
  "ChambollePockSplitting_init g h K = Inl TypeError
   \<and> DouglasRachfordSplitting_init g h = Inl TypeError
   \<and> ForwardBackwardSplitting_init f g = Inl TypeError"
  by (simp add: ChambollePockSplitting_init_def DouglasRachfordSplitting_init_def
      ForwardBackwardSplitting_init_def unbound_super_init_def)

section \<open>Construction: the operator\<close>

text \<open>
  C6, on the code. With \<open>h\<close> given and no \<open>K\<close>, \<open>_K\<close> is the identity operator with
  \<open>_lipschitz = 1\<close>. With neither \<open>h\<close> nor \<open>K\<close>, \<open>_K\<close> is the null operator. With no
  \<open>h\<close> and a \<open>K\<close> given, the constructor returns without assigning \<open>_K\<close> at all, and a
  step on such a solver raises \<open>AttributeError\<close> where it reads \<open>self._K\<close>: the given
  \<open>K\<close> is not replaced by the null operator.
\<close>

theorem init_K_resolution:
  "PrimalDualSplitting_init f g (Some hv) None =
     Inr \<lparr>self_f = (case f of None \<Rightarrow> NullFunc | Some fv \<Rightarrow> fv),
          self_g = (case g of None \<Rightarrow> NullFunc | Some gv \<Rightarrow> gv),
          self_h = hv, self_K = Some (IdentityOp\<lparr>lipschitz := Finite 1\<rparr>)\<rparr>
   \<and> PrimalDualSplitting_init (Some fv) g None None =
     Inr \<lparr>self_f = fv, self_g = (case g of None \<Rightarrow> NullFunc | Some gv \<Rightarrow> gv),
          self_h = NullFunc, self_K = Some NullOp\<rparr>
   \<and> PrimalDualSplitting_init (Some fv) g None (Some Kv) =
     Inr \<lparr>self_f = fv, self_g = (case g of None \<Rightarrow> NullFunc | Some gv \<Rightarrow> gv),
          self_h = NullFunc, self_K = None\<rparr>
   \<and> m_step \<lparr>self_f = sq_func, self_g = NullFunc, self_h = NullFunc, self_K = None\<rparr>
       \<lparr>mst_x = Some 5, mst_x_prev = Some 5, mst_z = None, mst_z_prev = None,
        mst_tau = Some 1, mst_sigma = Some 0, mst_rho = Some 0.9, mst_beta = Some 2\<rparr> =
     Inl AttributeError"
proof (intro conjI)
  show "m_step \<lparr>self_f = sq_func, self_g = NullFunc, self_h = NullFunc, self_K = None\<rparr>
       \<lparr>mst_x = Some 5, mst_x_prev = Some 5, mst_z = None, mst_z_prev = None,
        mst_tau = Some 1, mst_sigma = Some 0, mst_rho = Some 0.9, mst_beta = Some 2\<rparr> =
     Inl AttributeError"
    by (simp add: m_step_def)
qed (simp_all add: PrimalDualSplitting_init_def)

section \<open>What a step leaves alone\<close>

text \<open>
  C7, as stated, fails: \<open>m_step\<close> never assigns \<open>x_prev\<close>. In the Forward-Backward
  scenario the first step takes \<open>x\<close> from \<open>5\<close> to \<open>-4\<close>, and after the second step
  \<open>x_prev\<close> is still the initial \<open>5\<close>, not the \<open>-4\<close> that \<open>x\<close> held before that step.
\<close>

theorem x_prev_counterexample:
  "steps (Suc 0)
       \<lparr>self_f = sq_func, self_g = NullFunc, self_h = NullFunc, self_K = Some NullOp\<rparr>
       \<lparr>mst_x = Some 5, mst_x_prev = Some 5, mst_z = None, mst_z_prev = None,
        mst_tau = Some 1, mst_sigma = Some 0, mst_rho = Some 0.9, mst_beta = Some 2\<rparr> =
      (\<lparr>mst_x = Some (- 4), mst_x_prev = Some 5, mst_z = None, mst_z_prev = None,
        mst_tau = Some 1, mst_sigma = Some 0, mst_rho = Some 0.9, mst_beta = Some 2\<rparr>, None)
   \<and> steps (Suc (Suc 0))
       \<lparr>self_f = sq_func, self_g = NullFunc, self_h = NullFunc, self_K = Some NullOp\<rparr>
       \<lparr>mst_x = Some 5, mst_x_prev = Some 5, mst_z = None, mst_z_prev = None,
        mst_tau = Some 1, mst_sigma = Some 0, mst_rho = Some 0.9, mst_beta = Some 2\<rparr> =
      (\<lparr>mst_x = Some (16 / 5), mst_x_prev = Some 5, mst_z = None, mst_z_prev = None,
        mst_tau = Some 1, mst_sigma = Some 0, mst_rho = Some 0.9, mst_beta = Some 2\<rparr>, None)"
  by (simp add: fb_step1 fb_step2)

text \<open>
  C7, amended: a step that returns has changed \<open>x\<close> and \<open>z\<close> at most. \<open>x_prev\<close> and
  \<open>z_prev\<close> keep the values they had before the step, and so do \<open>tau\<close>, \<open>sigma\<close>,
  \<open>rho\<close> and \<open>beta\<close>.
\<close>

theorem m_step_frame:
  assumes "m_step slf s = Inr s'"
  shows "mst_x_prev s' = mst_x_prev s \<and> mst_z_prev s' = mst_z_prev s
       \<and> s' = s\<lparr>mst_x := mst_x s', mst_z := mst_z s'\<rparr>"
  using assms by (auto simp add: m_step_def Let_def split: option.splits if_splits)

text \<open>An instance: the second step of the scenario.\<close>

theorem m_step_frame_witness:
  "mst_x_prev \<lparr>mst_x = Some (16 / 5 :: real), mst_x_prev = Some 5, mst_z = None,
          mst_z_prev = None, mst_tau = Some 1, mst_sigma = Some 0, mst_rho = Some 0.9,
          mst_beta = Some 2\<rparr> = Some 5
   \<and> m_step \<lparr>self_f = sq_func, self_g = NullFunc, self_h = NullFunc, self_K = Some NullOp\<rparr>
       \<lparr>mst_x = Some (- 4), mst_x_prev = Some 5, mst_z = None, mst_z_prev = None,
        mst_tau = Some 1, mst_sigma = Some 0, mst_rho = Some 0.9, mst_beta = Some 2\<rparr> =
     Inr \<lparr>mst_x = Some (16 / 5), mst_x_prev = Some 5, mst_z = None, mst_z_prev = None,
          mst_tau = Some 1, mst_sigma = Some 0, mst_rho = Some 0.9, mst_beta = Some 2\<rparr>"
  using m_step_frame [OF fb_step2] fb_step2 by simp

section \<open>Validation of the overrides\<close>




section \<open>Construction: the shape check\<close>

text \<open>
  C9: when \<open>h\<close> and \<open>K\<close> are both given, \<open>h\<close> has a domain dimension \<open>n\<close> and the
  codomain dimension of \<open>K\<close> is not \<open>n\<close>, the constructor raises (the source's
  \<open>ValueError\<close>, the spec's configuration error), whatever \<open>f\<close> and \<open>g\<close> are. The raise
  is in the constructor: no solver is returned that could iterate.
\<close>

theorem init_shape_mismatch_raises:
  assumes "snd (func_shape hv) = Some n" and "fst (op_shape Kv) \<noteq> Some n"
  shows "PrimalDualSplitting_init f g (Some hv) (Some Kv) = Inl ValueError"
  using assms by (simp add: PrimalDualSplitting_init_def)

text \<open>An instance: \<open>h\<close> on dimension 1 and a \<open>K\<close> of shape \<open>(2, 1)\<close>.\<close>

theorem init_shape_mismatch_raises_witness:
  "PrimalDualSplitting_init (Some sq_func) None (Some abs_func)
       (Some ((scale_op 3)\<lparr>op_shape := (Some 2, Some 1)\<rparr>)) = Inl ValueError"
  using init_shape_mismatch_raises [of abs_func 1 "(scale_op 3)\<lparr>op_shape := (Some 2, Some 1)\<rparr>"
      "Some sq_func" None]
  by (simp add: abs_func_def scale_op_def)

text \<open>
  C10: when \<open>h\<close> is given and its domain dimension is \<open>None\<close>, the constructor accepts
  any given \<open>K\<close>, of any shape, and installs it as \<open>_K\<close>.
\<close>

theorem init_agnostic_accepts:
  assumes "snd (func_shape hv) = None"
  shows "PrimalDualSplitting_init f g (Some hv) (Some Kv) =
     Inr \<lparr>self_f = (case f of None \<Rightarrow> NullFunc | Some fv \<Rightarrow> fv),
          self_g = (case g of None \<Rightarrow> NullFunc | Some gv \<Rightarrow> gv),
          self_h = hv, self_K = Some Kv\<rparr>"
  using assms by (simp add: PrimalDualSplitting_init_def)

text \<open>An instance: a dimension-agnostic \<open>h\<close> and a \<open>K\<close> of shape \<open>(7, 2)\<close>.\<close>

theorem init_agnostic_accepts_witness:
  "PrimalDualSplitting_init None None (Some (abs_func\<lparr>func_shape := (Some 1, None)\<rparr>))
       (Some ((scale_op 3)\<lparr>op_shape := (Some 7, Some 2)\<rparr>)) =
     Inr \<lparr>self_f = NullFunc, self_g = NullFunc,
          self_h = abs_func\<lparr>func_shape := (Some 1, None)\<rparr>,
          self_K = Some ((scale_op 3)\<lparr>op_shape := (Some 7, Some 2)\<rparr>)\<rparr>"
  using init_agnostic_accepts [of "abs_func\<lparr>func_shape := (Some 1, None)\<rparr>" None None
      "(scale_op 3)\<lparr>op_shape := (Some 7, Some 2)\<rparr>"]
  by simp

end
